theory Spec2Isabelle
  imports Complex_Main
begin

section \<open>Errors\<close>

text \<open>
  Every exception the Python code can raise is a value. The first four are raised by the
  repository's own code or by the interpreter on its behalf; \<open>LibraryError\<close> stands for
  an exception raised inside one of the external libraries.
\<close>

datatype error =
    OSError string
  | ValueError string
  | AssertionError string
  | AttributeError string
  | LibraryError string

section \<open>The chess library: games, nodes and boards\<close>

text \<open>
  \<open>chess.Color\<close> is \<open>bool\<close> with \<open>chess.WHITE = True\<close> and \<open>chess.BLACK = False\<close>.
\<close>

type_synonym color = bool

definition WHITE :: color where
  "WHITE = True"

definition BLACK :: color where
  "BLACK = False"

text \<open>
  A game of \<open>chess.pgn\<close> is a tree: every node below the root holds the move that leads to
  it and the list of its variations, whose first element continues the mainline. The root
  (the \<open>Game\<close> object) holds the PGN headers, the errors the parser collected and its own
  variations. Moves are an abstract type \<open>'m\<close>.
\<close>

datatype 'm child_node =
  ChildNode (node_move: 'm) (node_variations: "'m child_node list")

record 'm game =
  game_headers :: "(string \<times> string) list"
  game_errors :: "string list"
  game_variations :: "'m child_node list"

text \<open>
  A node of the library knows its parent. Here a node met while walking the tree is paired
  with the moves on the way from the root to it, which is all \<open>board()\<close> reads from the
  parent links.
\<close>

type_synonym 'm game_node = "'m list \<times> 'm child_node"

text \<open>
  The iterator behind \<open>mainline()\<close> and \<open>mainline_moves()\<close>: starting at a node, while the
  node has variations, step to the first one and yield \<open>f\<close> of it.
\<close>

fun Mainline :: "('m game_node \<Rightarrow> 'a) \<Rightarrow> 'm list \<Rightarrow> 'm child_node list \<Rightarrow> 'a list" where
  "Mainline f path [] = []"
| "Mainline f path (ChildNode m vs # _) =
     f (path @ [m], ChildNode m vs) # Mainline f (path @ [m]) vs"

definition mainline_moves :: "'m game \<Rightarrow> 'm list" where
  "mainline_moves g = Mainline (\<lambda>node. node_move (snd node)) [] (game_variations g)"

definition mainline :: "'m game \<Rightarrow> 'm game_node list" where
  "mainline g = Mainline (\<lambda>node. node) [] (game_variations g)"

section \<open>The external libraries and the operating system\<close>

type_synonym bytes = "char list"

type_synonym path = "string list"

record writer_args =
  wa_loop :: int
  wa_duration :: "real option"
  wa_fps :: "real option"
  wa_palettesize :: int
  wa_subrectangles :: bool

text \<open>
  What the code calls and does not define is a parameter: the chess library (boards \<open>'b\<close>,
  moves \<open>'m\<close>), the SVG rasteriser, the image library (decoded images \<open>'i\<close>) and the
  operating system's verdict on each file operation. A call that can raise returns
  \<open>error + _\<close>, or \<open>error option\<close> when it returns nothing.

  \<^item> \<open>chess_Board\<close> is \<open>chess.Board()\<close>, the standard starting position;
    \<open>Headers_board variant fen\<close> is the board \<open>Headers.board()\<close> builds for a game whose
    \<open>Variant\<close> and \<open>FEN\<close> headers have these values (\<open>None\<close> for a header the game does
    not have): the board of that variant at that position, or at the variant's own
    starting position without a \<open>FEN\<close>; \<open>Board_push b m\<close> is \<open>b\<close> after \<open>b.push(m)\<close>.
  \<^item> \<open>read_game\<close> is \<open>chess.pgn.read_game\<close> on the text: a game, or \<open>None\<close> when the text
    holds no game.
  \<^item> \<open>svg_board\<close> is \<open>chess.svg.board\<close>, \<open>svg2png\<close> is \<open>cairosvg.svg2png\<close>,
    \<open>imread\<close> is \<open>imageio.imread\<close>.
  \<^item> \<open>get_writer\<close>, \<open>append_data\<close> and \<open>writer_close\<close> say whether opening the GIF writer,
    appending an image after the given ones, and closing the writer raise;
    \<open>gif_bytes\<close> is the stream a closed writer has written for the images appended,
    \<open>gif_partial\<close> what the sink holds when an error interrupts the writer.
  \<^item> \<open>tempfile_error\<close>, \<open>mkdir_error\<close>, \<open>open_error\<close> and \<open>write_error\<close> say whether
    \<open>TemporaryFile()\<close>, \<open>mkdir\<close>, \<open>open(path, "wb+")\<close> and \<open>f.write\<close> raise.
\<close>

record ('b, 'm, 'i) lib =
  chess_Board :: 'b
  Headers_board :: "string option \<Rightarrow> string option \<Rightarrow> 'b"
  Board_push :: "'b \<Rightarrow> 'm \<Rightarrow> 'b"
  read_game :: "string \<Rightarrow> error + 'm game option"
  svg_board :: "'b \<Rightarrow> color \<Rightarrow> 'm option \<Rightarrow> int \<Rightarrow> bool \<Rightarrow> string option \<Rightarrow> string"
  svg2png :: "string \<Rightarrow> error + bytes"
  imread :: "bytes \<Rightarrow> error + 'i"
  get_writer :: "writer_args \<Rightarrow> error option"
  append_data :: "writer_args \<Rightarrow> 'i list \<Rightarrow> 'i \<Rightarrow> error option"
  writer_close :: "writer_args \<Rightarrow> 'i list \<Rightarrow> error option"
  gif_bytes :: "writer_args \<Rightarrow> 'i list \<Rightarrow> bytes"
  gif_partial :: "writer_args \<Rightarrow> 'i list \<Rightarrow> bytes"
  tempfile_error :: "error option"
  mkdir_error :: "path \<Rightarrow> error option"
  open_error :: "path \<Rightarrow> error option"
  write_error :: "path \<Rightarrow> bytes \<Rightarrow> error option"

text \<open>
  \<open>Game.board()\<close> is the board of the game's headers. A game with neither a \<open>Variant\<close>
  nor a \<open>FEN\<close> header is standard chess from the standard starting position,
  \<open>chess.Board()\<close>; with one of them the board is the variant's, at the position of the
  \<open>FEN\<close> header or at the variant's own starting position. \<open>node.board()\<close>: the game's
  board with the moves from the root to the node pushed in order.
\<close>

definition Game_board :: "('b, 'm, 'i) lib \<Rightarrow> 'm game \<Rightarrow> 'b" where
  "Game_board lib g =
     (case (map_of (game_headers g) ''Variant'', map_of (game_headers g) ''FEN'') of
        (None, None) \<Rightarrow> chess_Board lib
      | (variant, fen) \<Rightarrow> Headers_board lib variant fen)"

definition node_board :: "('b, 'm, 'i) lib \<Rightarrow> 'm game \<Rightarrow> 'm game_node \<Rightarrow> 'b" where
  "node_board lib g node = foldl (Board_push lib) (Game_board lib g) (fst node)"

section \<open>Files\<close>

text \<open>
  The world the pipeline acts on: the files and directories of the file system, and the
  temporary files, each an object with its data, its position and whether it is closed,
  found through a handle.
\<close>

record temp_file =
  tf_data :: bytes
  tf_pos :: nat
  tf_closed :: bool

record world =
  files :: "path \<rightharpoonup> bytes"
  dirs :: "path set"
  temps :: "nat \<rightharpoonup> temp_file"
  next_temp :: nat

definition TemporaryFile :: "('b, 'm, 'i) lib \<Rightarrow> world \<Rightarrow> (error + nat) \<times> world" where
  "TemporaryFile lib w =
     (case tempfile_error lib of
        Some e \<Rightarrow> (Inl e, w)
      | None \<Rightarrow>
          (Inr (next_temp w),
           w\<lparr>temps := (temps w)(next_temp w \<mapsto> \<lparr>tf_data = [], tf_pos = 0, tf_closed = False\<rparr>),
             next_temp := Suc (next_temp w)\<rparr>))"

text \<open>The writer's output lands in the temporary file, which stays open after it.\<close>

definition temp_write :: "nat \<Rightarrow> bytes \<Rightarrow> world \<Rightarrow> world" where
  "temp_write h data w =
     w\<lparr>temps := (temps w)(h \<mapsto> \<lparr>tf_data = data, tf_pos = length data, tf_closed = False\<rparr>)\<rparr>"

text \<open>
  \<open>seek\<close>, \<open>read\<close> and \<open>close\<close> of a file object. A closed file refuses \<open>seek\<close> and \<open>read\<close>
  with a \<open>ValueError\<close>; a handle that names no object is treated like a closed file.
\<close>

definition temp_seek :: "nat \<Rightarrow> nat \<Rightarrow> world \<Rightarrow> (error + unit) \<times> world" where
  "temp_seek h n w =
     (case temps w h of
        None \<Rightarrow> (Inl (ValueError ''seek of closed file''), w)
      | Some t \<Rightarrow>
          if tf_closed t then (Inl (ValueError ''seek of closed file''), w)
          else (Inr (), w\<lparr>temps := (temps w)(h \<mapsto> t\<lparr>tf_pos := n\<rparr>)\<rparr>))"

definition temp_read :: "nat \<Rightarrow> world \<Rightarrow> (error + bytes) \<times> world" where
  "temp_read h w =
     (case temps w h of
        None \<Rightarrow> (Inl (ValueError ''read of closed file''), w)
      | Some t \<Rightarrow>
          if tf_closed t then (Inl (ValueError ''read of closed file''), w)
          else (Inr (drop (tf_pos t) (tf_data t)),
                w\<lparr>temps := (temps w)(h \<mapsto> t\<lparr>tf_pos := max (tf_pos t) (length (tf_data t))\<rparr>)\<rparr>))"

definition temp_close :: "nat \<Rightarrow> world \<Rightarrow> world" where
  "temp_close h w =
     (case temps w h of
        None \<Rightarrow> w
      | Some t \<Rightarrow> w\<lparr>temps := (temps w)(h \<mapsto> t\<lparr>tf_closed := True\<rparr>)\<rparr>)"

text \<open>
  \<open>Path.parent\<close> drops the last component; \<open>mkdir(parents=True, exist_ok=True)\<close> makes the
  directory and every missing ancestor.
\<close>

definition parent :: "path \<Rightarrow> path" where
  "parent p = butlast p"

fun ancestors :: "path \<Rightarrow> path list" where
  "ancestors [] = [[]]"
| "ancestors (c # cs) = [] # map ((#) c) (ancestors cs)"

section \<open>utils.py\<close>

definition read_file :: "path \<Rightarrow> world \<Rightarrow> error + string" where
  "read_file p w =
     (case files w p of
        None \<Rightarrow> Inl (OSError ''No such file or directory'')
      | Some contents \<Rightarrow> Inr contents)"

definition read_pgn :: "path \<Rightarrow> world \<Rightarrow> error + string" where
  "read_pgn = read_file"

definition read_css :: "path \<Rightarrow> world \<Rightarrow> error + string" where
  "read_css = read_file"

definition pgn_to_game :: "('b, 'm, 'i) lib \<Rightarrow> string \<Rightarrow> error + 'm game option" where
  "pgn_to_game lib pgn = read_game lib pgn"

text \<open>
  A generator is the list of what it yields; an element \<open>Inl e\<close> is the point where pulling
  the next value raises \<open>e\<close>, and nothing after it is ever reached. A generator expression
  \<open>(f(x) for x in xs)\<close> applies \<open>f\<close> to each value as it is pulled.
\<close>

type_synonym 'a generator = "(error + 'a) list"

definition gen_map :: "('a \<Rightarrow> error + 'b) \<Rightarrow> 'a generator \<Rightarrow> 'b generator" where
  "gen_map f xs = map (\<lambda>x. case x of Inl e \<Rightarrow> Inl e | Inr a \<Rightarrow> f a) xs"

text \<open>
  \<open>game_to_boards_and_last_moves\<close>. The argument is what \<open>pgn_to_game\<close> returned, so it
  can be \<open>None\<close>: then \<open>game.mainline_moves()\<close> raises an \<open>AttributeError\<close>, after the
  initial position has been yielded when that was asked for.
\<close>

definition game_to_boards_and_last_moves ::
  "('b, 'm, 'i) lib \<Rightarrow> 'm game option \<Rightarrow> bool \<Rightarrow> ('b \<times> 'm option) generator" where
  "game_to_boards_and_last_moves lib game add_initial_position =
     (if add_initial_position then [Inr (chess_Board lib, None)] else []) @
     (case game of
        None \<Rightarrow> [Inl (AttributeError ''NoneType object has no attribute mainline_moves'')]
      | Some g \<Rightarrow>
          map (\<lambda>(move, game_node). Inr (node_board lib g game_node, Some move))
            (zip (mainline_moves g) (mainline g)))"

definition board_to_svg ::
  "('b, 'm, 'i) lib \<Rightarrow> 'b \<Rightarrow> color \<Rightarrow> 'm option \<Rightarrow> int \<Rightarrow> bool \<Rightarrow> string option
     \<Rightarrow> error + string" where
  "board_to_svg lib board orientation last_move board_size coordinates style =
     (if board_size > 0
      then Inr (svg_board lib board orientation last_move board_size coordinates style)
      else Inl (AssertionError ''size of the board must be positive integer''))"

definition svg_to_png :: "('b, 'm, 'i) lib \<Rightarrow> string \<Rightarrow> error + bytes" where
  "svg_to_png lib board_svg = svg2png lib board_svg"

text \<open>
  The list comprehension of \<open>pngs_to_gif\<close>: pull a PNG, decode it, append it, until the
  generator is exhausted. The result is the images appended, with the error when one of
  the three steps raised.
\<close>

fun append_all ::
  "('b, 'm, 'i) lib \<Rightarrow> writer_args \<Rightarrow> bytes generator \<Rightarrow> 'i list \<Rightarrow> (error \<times> 'i list) + 'i list" where
  "append_all lib args [] frames = Inr frames"
| "append_all lib args (Inl e # _) frames = Inl (e, frames)"
| "append_all lib args (Inr png # pngs) frames =
     (case imread lib png of
        Inl e \<Rightarrow> Inl (e, frames)
      | Inr im \<Rightarrow>
          (case append_data lib args frames im of
             Some e \<Rightarrow> Inl (e, frames)
           | None \<Rightarrow> append_all lib args pngs (frames @ [im])))"

text \<open>The keyword arguments \<open>pngs_to_gif\<close> opens the writer with.\<close>

definition writer_kwargs :: "int \<Rightarrow> real option \<Rightarrow> real option \<Rightarrow> int \<Rightarrow> bool \<Rightarrow> writer_args" where
  "writer_kwargs loop duration fps palettesize subrectangles =
     \<lparr>wa_loop = loop, wa_duration = duration, wa_fps = fps,
      wa_palettesize = palettesize, wa_subrectangles = subrectangles\<rparr>"

definition pngs_to_gif ::
  "('b, 'm, 'i) lib \<Rightarrow> bytes generator \<Rightarrow> int \<Rightarrow> real option \<Rightarrow> real option \<Rightarrow> int \<Rightarrow> bool
     \<Rightarrow> world \<Rightarrow> (error + nat) \<times> world" where
  "pngs_to_gif lib pngs loop duration fps palettesize subrectangles w =
     (if duration = None \<and> fps = None
      then (Inl (ValueError ''duration and fps cannot be None at the same time''), w)
      else
        (case TemporaryFile lib w of
           (Inl e, w1) \<Rightarrow> (Inl e, w1)
         | (Inr temp_file, w1) \<Rightarrow>
             (let args = writer_kwargs loop duration fps palettesize subrectangles
              in case get_writer lib args of
                   Some e \<Rightarrow> (Inl e, w1)
                 | None \<Rightarrow>
                     (case append_all lib args pngs [] of
                        Inl (e, frames) \<Rightarrow>
                          (Inl e, temp_write temp_file (gif_partial lib args frames) w1)
                      | Inr frames \<Rightarrow>
                          (case writer_close lib args frames of
                             Some e \<Rightarrow>
                               (Inl e, temp_write temp_file (gif_partial lib args frames) w1)
                           | None \<Rightarrow>
                               (Inr temp_file,
                                temp_write temp_file (gif_bytes lib args frames) w1))))))"

definition save_gif_temp_file ::
  "('b, 'm, 'i) lib \<Rightarrow> nat \<Rightarrow> path \<Rightarrow> world \<Rightarrow> (error + unit) \<times> world" where
  "save_gif_temp_file lib temp_file p w =
     (case mkdir_error lib (parent p) of
        Some e \<Rightarrow> (Inl e, w)
      | None \<Rightarrow>
          (let w1 = w\<lparr>dirs := dirs w \<union> set (ancestors (parent p))\<rparr>
           in case temp_seek temp_file 0 w1 of
                (Inl e, w2) \<Rightarrow> (Inl e, w2)
              | (Inr _, w2) \<Rightarrow>
                  (case open_error lib p of
                     Some e \<Rightarrow> (Inl e, w2)
                   | None \<Rightarrow>
                       (let w3 = w2\<lparr>files := (files w2)(p \<mapsto> [])\<rparr>
                        in case temp_read temp_file w3 of
                             (Inl e, w4) \<Rightarrow> (Inl e, w4)
                           | (Inr data, w4) \<Rightarrow>
                               (case write_error lib p data of
                                  Some e \<Rightarrow> (Inl e, w4)
                                | None \<Rightarrow>
                                    (Inr (),
                                     temp_close temp_file
                                       (w4\<lparr>files := (files w4)(p \<mapsto> data)\<rparr>)))))))"

text \<open>The generator expression \<open>svgs\<close> of \<open>game_to_gif\<close>, and \<open>pngs\<close> after it.\<close>

definition svgs ::
  "('b, 'm, 'i) lib \<Rightarrow> ('b \<times> 'm option) generator \<Rightarrow> bool \<Rightarrow> color \<Rightarrow> int \<Rightarrow> bool
     \<Rightarrow> string option \<Rightarrow> string generator" where
  "svgs lib boards_and_last_moves highlight_last_move orientation board_size coordinates style =
     gen_map
       (\<lambda>(board, last_move).
          board_to_svg lib board orientation
            (if highlight_last_move then last_move else None) board_size coordinates style)
       boards_and_last_moves"

definition pngs :: "('b, 'm, 'i) lib \<Rightarrow> string generator \<Rightarrow> bytes generator" where
  "pngs lib svgs_gen = gen_map (svg_to_png lib) svgs_gen"

definition game_to_gif ::
  "('b, 'm, 'i) lib \<Rightarrow> 'm game option \<Rightarrow> path option \<Rightarrow> bool \<Rightarrow> bool \<Rightarrow> color \<Rightarrow> int
     \<Rightarrow> bool \<Rightarrow> string option \<Rightarrow> int \<Rightarrow> real option \<Rightarrow> real option \<Rightarrow> int \<Rightarrow> bool
     \<Rightarrow> world \<Rightarrow> (error + nat option) \<times> world" where
  "game_to_gif lib game gif_path add_initial_position highlight_last_move orientation board_size
     coordinates style loop duration fps palettesize subrectangles w =
     (let boards_and_last_moves = game_to_boards_and_last_moves lib game add_initial_position;
          svgs_gen = svgs lib boards_and_last_moves highlight_last_move orientation board_size
                       coordinates style;
          pngs_gen = pngs lib svgs_gen
      in case pngs_to_gif lib pngs_gen loop duration fps palettesize subrectangles w of
           (Inl e, w1) \<Rightarrow> (Inl e, w1)
         | (Inr gif_temp_file, w1) \<Rightarrow>
             (case gif_path of
                Some p \<Rightarrow>
                  (case save_gif_temp_file lib gif_temp_file p w1 of
                     (Inl e, w2) \<Rightarrow> (Inl e, w2)
                   | (Inr _, w2) \<Rightarrow> (Inr None, w2))
              | None \<Rightarrow> (Inr (Some gif_temp_file), w1)))"

definition pgn_to_gif ::
  "('b, 'm, 'i) lib \<Rightarrow> string \<Rightarrow> path option \<Rightarrow> bool \<Rightarrow> bool \<Rightarrow> color \<Rightarrow> int
     \<Rightarrow> bool \<Rightarrow> string option \<Rightarrow> int \<Rightarrow> real option \<Rightarrow> real option \<Rightarrow> int \<Rightarrow> bool
     \<Rightarrow> world \<Rightarrow> (error + nat option) \<times> world" where
  "pgn_to_gif lib pgn gif_path add_initial_position highlight_last_move orientation board_size
     coordinates style loop duration fps palettesize subrectangles w =
     (case pgn_to_game lib pgn of
        Inl e \<Rightarrow> (Inl e, w)
      | Inr game \<Rightarrow>
          game_to_gif lib game gif_path add_initial_position highlight_last_move orientation
            board_size coordinates style loop duration fps palettesize subrectangles w)"

section \<open>cli.py\<close>

definition parse_orientation :: "string \<Rightarrow> error + color" where
  "parse_orientation orientation =
     (if orientation = ''white'' then Inr WHITE
      else if orientation = ''black'' then Inr BLACK
      else Inl (ValueError (''unknown orientation='' @ orientation)))"

text \<open>
  \<open>str.lower()\<close> on strings of code points below 256: the capital letters \<open>A\<close> to \<open>Z\<close>
  and the capital letters of Latin-1 (192 to 222 without the multiplication sign 215) move
  up by 32, every other character stays.
\<close>

definition lower_char :: "char \<Rightarrow> char" where
  "lower_char c =
     (let n = (of_char c :: nat)
      in if (65 \<le> n \<and> n \<le> 90) \<or> (192 \<le> n \<and> n \<le> 222 \<and> n \<noteq> 215)
         then char_of (n + 32) else c)"

definition lower :: "string \<Rightarrow> string" where
  "lower s = map lower_char s"

definition parse_bool :: "string \<Rightarrow> error + bool" where
  "parse_bool bool_str =
     (let true_values = [''1'', ''t'', ''true''];
          false_values = [''0'', ''f'', ''false'']
      in if lower bool_str \<in> set true_values then Inr True
         else if lower bool_str \<in> set false_values then Inr False
         else Inl (ValueError (''cannot parse to bool, '' @ bool_str)))"

text \<open>
  The command line of \<open>cli.py\<close> as \<open>argparse\<close> receives it, defaults filled in: the options
  declared with \<open>choices\<close> as the strings given, the options declared with a \<open>type\<close>
  already converted.
\<close>

record cli_argv =
  arg_pgn_path :: path
  arg_gif_path :: path
  arg_add_initial_position :: string
  arg_highlight_last_move :: string
  arg_orientation :: string
  arg_size :: int
  arg_coordinates :: string
  arg_css_path :: "path option"
  arg_loop :: int
  arg_duration :: real
  arg_fps :: real
  arg_palettesize :: int
  arg_subrectangles :: string

text \<open>
  A run of the entry point fails in one of two ways: \<open>argparse\<close> rejects the command
  line, prints its usage message and leaves the process with status 2, or an exception
  that nothing catches ends the process with status 1.
\<close>

datatype failure = UsageError | Uncaught error

text \<open>
  \<open>argparse\<close> compares the value of an option declared with \<open>choices\<close> with the
  choices as they are written, and rejects the command line when it is none of them.
\<close>

definition check_choices :: "string list \<Rightarrow> string \<Rightarrow> failure + string" where
  "check_choices choices v = (if v \<in> set choices then Inr v else Inl UsageError)"

definition bool_choices :: "string list" where
  "bool_choices = [''1'', ''t'', ''true'', ''0'', ''f'', ''false'']"

definition parse_args :: "cli_argv \<Rightarrow> failure + cli_argv" where
  "parse_args argv =
     (case check_choices bool_choices (arg_add_initial_position argv) of
        Inl e \<Rightarrow> Inl e
      | Inr _ \<Rightarrow>
     (case check_choices bool_choices (arg_highlight_last_move argv) of
        Inl e \<Rightarrow> Inl e
      | Inr _ \<Rightarrow>
     (case check_choices [''white'', ''black''] (arg_orientation argv) of
        Inl e \<Rightarrow> Inl e
      | Inr _ \<Rightarrow>
     (case check_choices bool_choices (arg_coordinates argv) of
        Inl e \<Rightarrow> Inl e
      | Inr _ \<Rightarrow>
     (case check_choices bool_choices (arg_subrectangles argv) of
        Inl e \<Rightarrow> Inl e
      | Inr _ \<Rightarrow> Inr argv)))))"

text \<open>
  What the entry point makes of the string given for one boolean flag: \<open>parse_args\<close>
  checks it against the choices, then \<open>main\<close> hands it to \<open>parse_bool\<close>.
\<close>

definition cli_bool_flag :: "string \<Rightarrow> failure + bool" where
  "cli_bool_flag v =
     (case check_choices bool_choices v of
        Inl e \<Rightarrow> Inl e
      | Inr bool_str \<Rightarrow>
          (case parse_bool bool_str of Inl e \<Rightarrow> Inl (Uncaught e) | Inr b \<Rightarrow> Inr b))"

definition cli_main :: "('b, 'm, 'i) lib \<Rightarrow> cli_argv \<Rightarrow> world \<Rightarrow> (failure + unit) \<times> world" where
  "cli_main lib argv w =
     (case parse_args argv of
        Inl e \<Rightarrow> (Inl e, w)
      | Inr args \<Rightarrow>
     (case read_pgn (arg_pgn_path args) w of
        Inl e \<Rightarrow> (Inl (Uncaught e), w)
      | Inr pgn \<Rightarrow>
     (case (case arg_css_path args of
              None \<Rightarrow> Inr None
            | Some css_path \<Rightarrow>
                (case read_css css_path w of Inl e \<Rightarrow> Inl e | Inr css \<Rightarrow> Inr (Some css))) of
        Inl e \<Rightarrow> (Inl (Uncaught e), w)
      | Inr style \<Rightarrow>
     (case parse_orientation (arg_orientation args) of
        Inl e \<Rightarrow> (Inl (Uncaught e), w)
      | Inr orientation \<Rightarrow>
     (case parse_bool (arg_add_initial_position args) of
        Inl e \<Rightarrow> (Inl (Uncaught e), w)
      | Inr add_initial_position \<Rightarrow>
     (case parse_bool (arg_highlight_last_move args) of
        Inl e \<Rightarrow> (Inl (Uncaught e), w)
      | Inr highlight_last_move \<Rightarrow>
     (case parse_bool (arg_coordinates args) of
        Inl e \<Rightarrow> (Inl (Uncaught e), w)
      | Inr coordinates \<Rightarrow>
     (case parse_bool (arg_subrectangles args) of
        Inl e \<Rightarrow> (Inl (Uncaught e), w)
      | Inr subrectangles \<Rightarrow>
     (case pgn_to_gif lib pgn (Some (arg_gif_path args)) add_initial_position
             highlight_last_move orientation (arg_size args) coordinates style
             (arg_loop args) (Some (arg_duration args)) (Some (arg_fps args))
             (arg_palettesize args) subrectangles w of
        (Inl e, w') \<Rightarrow> (Inl (Uncaught e), w')
      | (Inr _, w') \<Rightarrow> (Inr (), w'))))))))))"

text \<open>The status the process leaves with: 0 when \<open>main\<close> returns.\<close>

definition exit_status :: "failure + unit \<Rightarrow> nat" where
  "exit_status r =
     (case r of
        Inr _ \<Rightarrow> 0
      | Inl UsageError \<Rightarrow> 2
      | Inl (Uncaught e) \<Rightarrow> 1)"

section \<open>main.py\<close>

text \<open>
  The other entry point declares its boolean flags with \<open>type=bool\<close>: \<open>argparse\<close>
  applies \<open>bool\<close> to the string given, and \<open>bool\<close> of a string is whether it is not
  empty. A flag that is not given keeps its default \<open>True\<close>.
\<close>

definition type_bool :: "string \<Rightarrow> bool" where
  "type_bool v = (v \<noteq> [])"

definition main_bool_flag :: "string option \<Rightarrow> bool" where
  "main_bool_flag given = (case given of None \<Rightarrow> True | Some v \<Rightarrow> type_bool v)"

section \<open>Concrete inputs\<close>

text \<open>
  A library to run the model on: a board is the name of its variant, when it is not
  standard chess, and of its starting position, followed by the moves pushed, moves are
  strings, the renderer writes the board and the
  highlighted move down, every later stage passes its input on, a closed writer has
  written the images and the trailer \<open>;\<close>, and no call raises. The parser of this library
  raises on no text: it finds a game without moves in every text, as \<open>chess.pgn.read_game\<close>
  does in a text that holds no move it can read.
\<close>

definition stub_lib :: "(string list, string, bytes) lib" where
  "stub_lib =
     \<lparr>chess_Board = [''startpos''],
      Headers_board = (\<lambda>variant fen.
                         (case variant of None \<Rightarrow> [] | Some v \<Rightarrow> [v]) @
                         (case fen of None \<Rightarrow> [''startpos''] | Some f \<Rightarrow> [f])),
      Board_push = (\<lambda>b m. b @ [m]),
      read_game = (\<lambda>pgn. Inr (Some \<lparr>game_headers = [], game_errors = [],
                                       game_variations = []\<rparr>)),
      svg_board = (\<lambda>b orientation last_move board_size coordinates style.
                     concat b @ (case last_move of None \<Rightarrow> ''-'' | Some m \<Rightarrow> ''+'' @ m)),
      svg2png = (\<lambda>svg. Inr svg),
      imread = (\<lambda>png. Inr png),
      get_writer = (\<lambda>args. None),
      append_data = (\<lambda>args frames im. None),
      writer_close = (\<lambda>args frames. None),
      gif_bytes = (\<lambda>args frames. concat frames @ '';''),
      gif_partial = (\<lambda>args frames. concat frames),
      tempfile_error = None,
      mkdir_error = (\<lambda>p. None),
      open_error = (\<lambda>p. None),
      write_error = (\<lambda>p data. None)\<rparr>"

text \<open>
  The game \<open>1. e4 e5\<close>, a game without moves, a game that starts from a FEN, and a game
  of the variant Racing Kings.
\<close>

definition e4_e5 :: "string game" where
  "e4_e5 =
     \<lparr>game_headers = [], game_errors = [],
      game_variations = [ChildNode ''e4'' [ChildNode ''e5'' []]]\<rparr>"

definition no_moves :: "string game" where
  "no_moves = \<lparr>game_headers = [], game_errors = [], game_variations = []\<rparr>"

definition from_fen :: "string game" where
  "from_fen =
     \<lparr>game_headers = [(''FEN'', ''8/8/8/8/8/8/8/K1k5 w - - 0 1'')], game_errors = [],
      game_variations = [ChildNode ''Ka2'' []]\<rparr>"

definition racing_kings :: "string game" where
  "racing_kings =
     \<lparr>game_headers = [(''Variant'', ''Racing Kings'')], game_errors = [],
      game_variations = [ChildNode ''Kh3'' []]\<rparr>"

text \<open>A world with no file, no directory and no temporary file.\<close>

definition w0 :: world where
  "w0 = \<lparr>files = Map.empty, dirs = {}, temps = Map.empty, next_temp = 0\<rparr>"

text \<open>
  A world whose only temporary file holds six bytes and is open, with the position at the
  end, and a library as above whose \<open>open\<close> refuses every destination.
\<close>

definition w_gif :: world where
  "w_gif =
     \<lparr>files = Map.empty, dirs = {},
      temps = [0 \<mapsto> \<lparr>tf_data = ''GIF89a'', tf_pos = 6, tf_closed = False\<rparr>],
      next_temp = 1\<rparr>"

definition read_only_lib :: "(string list, string, bytes) lib" where
  "read_only_lib = stub_lib\<lparr>open_error := (\<lambda>p. Some (OSError ''Permission denied''))\<rparr>"

text \<open>
  A world with one file, \<open>game.pgn\<close>, that holds no PGN, and the command line
  \<open>--pgn-path game.pgn --gif-path out/game.gif\<close> with every default.
\<close>

definition w_pgn :: world where
  "w_pgn =
     \<lparr>files = [[''game.pgn''] \<mapsto> ''garbage''], dirs = {}, temps = Map.empty, next_temp = 0\<rparr>"

definition argv_defaults :: cli_argv where
  "argv_defaults =
     \<lparr>arg_pgn_path = [''game.pgn''], arg_gif_path = [''out'', ''game.gif''],
      arg_add_initial_position = ''true'', arg_highlight_last_move = ''true'',
      arg_orientation = ''white'', arg_size = 400, arg_coordinates = ''true'',
      arg_css_path = None, arg_loop = 0, arg_duration = 1, arg_fps = 1,
      arg_palettesize = 64, arg_subrectangles = ''true''\<rparr>"

text \<open>
  Two more parsers: one that raises on every text, and one that finds no game in any
  text and returns \<open>None\<close>.
\<close>

definition raising_lib :: "(string list, string, bytes) lib" where
  "raising_lib = stub_lib\<lparr>read_game := (\<lambda>pgn. Inl (LibraryError ''no game''))\<rparr>"

definition no_game_lib :: "(string list, string, bytes) lib" where
  "no_game_lib = stub_lib\<lparr>read_game := (\<lambda>pgn. Inr None)\<rparr>"

section \<open>Unfolding the model\<close>

lemmas run_defs =
  game_to_gif_def pgn_to_gif_def pgn_to_game_def pngs_to_gif_def save_gif_temp_file_def
  game_to_boards_and_last_moves_def svgs_def pngs_def gen_map_def board_to_svg_def
  svg_to_png_def writer_kwargs_def TemporaryFile_def temp_write_def temp_seek_def
  temp_read_def temp_close_def parent_def mainline_moves_def mainline_def node_board_def
  Game_board_def Let_def

lemmas input_defs =
  stub_lib_def e4_e5_def no_moves_def from_fen_def racing_kings_def w0_def WHITE_def BLACK_def

section \<open>The mainline\<close>

lemma Mainline_length: "length (Mainline f p vs) = length (Mainline g q vs)"
  by (induction f p vs arbitrary: q rule: Mainline.induct) simp_all

lemma Mainline_path:
  "i < length (Mainline (\<lambda>node. node) p vs) \<Longrightarrow>
   fst (Mainline (\<lambda>node. node) p vs ! i) =
     p @ take (Suc i) (Mainline (\<lambda>node. node_move (snd node)) q vs)"
proof (induction "\<lambda>node::'a game_node. node" p vs arbitrary: i q rule: Mainline.induct)
  case (1 path)
  then show ?case by simp
next
  case (2 path m vs uu)
  show ?case
  proof (cases i)
    case 0
    then show ?thesis by simp
  next
    case (Suc j)
    with 2 show ?thesis by simp
  qed
qed

lemma mainline_length: "length (mainline g) = length (mainline_moves g)"
  unfolding mainline_def mainline_moves_def by (rule Mainline_length)

lemma game_moves_boards:
  "map (\<lambda>(move, game_node). Inr (node_board lib g game_node, Some move))
     (zip (mainline_moves g) (mainline g)) =
   map (\<lambda>i. Inr (foldl (Board_push lib) (Game_board lib g) (take (Suc i) (mainline_moves g)),
                  Some (mainline_moves g ! i)))
     [0..<length (mainline_moves g)]"
proof (rule nth_equalityI)
  show "length (map (\<lambda>(move, game_node). Inr (node_board lib g game_node, Some move))
     (zip (mainline_moves g) (mainline g))) = length (map (\<lambda>i. Inr (foldl (Board_push lib) (Game_board lib g) (take (Suc i) (mainline_moves g)),
                  Some (mainline_moves g ! i)))
     [0..<length (mainline_moves g)])"
    by (simp add: mainline_length)
next
  fix i
  assume "i < length (map (\<lambda>(move, game_node). Inr (node_board lib g game_node, Some move))
     (zip (mainline_moves g) (mainline g)))"
  then have i: "i < length (mainline_moves g)" and i': "i < length (mainline g)"
    by (simp_all add: mainline_length)
  have "fst (mainline g ! i) = take (Suc i) (mainline_moves g)"
    using Mainline_path[of i "[]" "game_variations g" "[]"] i'
    by (simp add: mainline_def mainline_moves_def)
  with i i' show "map (\<lambda>(move, game_node). Inr (node_board lib g game_node, Some move))
     (zip (mainline_moves g) (mainline g)) ! i = map (\<lambda>i. Inr (foldl (Board_push lib) (Game_board lib g) (take (Suc i) (mainline_moves g)),
                  Some (mainline_moves g ! i)))
     [0..<length (mainline_moves g)] ! i"
    by (simp add: node_board_def)
qed

section \<open>The encoder and the writer\<close>

lemma append_all_length:
  "append_all lib args ps acc = Inr frames \<Longrightarrow> length frames = length acc + length ps"
  by (induction lib args ps acc rule: append_all.induct) (auto split: sum.splits option.splits)

lemma gen_map_length: "length (gen_map f xs) = length xs"
  by (simp add: gen_map_def)

lemma pngs_to_gif_Inr:
  assumes "pngs_to_gif lib ps loop duration fps palettesize subrectangles w = (Inr h, w')"
  shows "\<exists>frames. append_all lib (writer_kwargs loop duration fps palettesize subrectangles) ps [] = Inr frames \<and>
           h = next_temp w \<and>
           temps w' = (temps w)(h \<mapsto> \<lparr>tf_data = gif_bytes lib (writer_kwargs loop duration fps palettesize subrectangles) frames,
                              tf_pos = length (gif_bytes lib (writer_kwargs loop duration fps palettesize subrectangles) frames),
                              tf_closed = False\<rparr>) \<and>
           files w' = files w \<and> dirs w' = dirs w"
proof (cases "append_all lib (writer_kwargs loop duration fps palettesize subrectangles) ps []")
  case (Inl a)
  with assms show ?thesis
    by (auto simp: pngs_to_gif_def TemporaryFile_def Let_def
        split: if_splits option.splits prod.splits)
next
  case (Inr frames)
  with assms show ?thesis
    by (auto simp: pngs_to_gif_def TemporaryFile_def temp_write_def Let_def
        split: if_splits option.splits)
qed

lemma pngs_to_gif_files:
  assumes "pngs_to_gif lib ps loop duration fps palettesize subrectangles w = (r, w')"
  shows "files w' = files w \<and> dirs w' = dirs w"
  using assms
  by (auto simp: pngs_to_gif_def TemporaryFile_def temp_write_def Let_def
      split: if_splits option.splits sum.splits prod.splits)

lemma save_gif_temp_file_Inr:
  assumes "save_gif_temp_file lib h p w = (Inr u, w')" and "temps w h = Some t"
  shows "\<not> tf_closed t \<and> files w' = (files w)(p \<mapsto> tf_data t) \<and>
         dirs w' = dirs w \<union> set (ancestors (parent p)) \<and>
         temps w' = (temps w)(h \<mapsto> \<lparr>tf_data = tf_data t, tf_pos = length (tf_data t), tf_closed = True\<rparr>)"
  using assms
  by (auto simp: save_gif_temp_file_def temp_seek_def temp_read_def temp_close_def Let_def
      split: if_splits option.splits sum.splits prod.splits)

lemma save_gif_temp_file_Inl:
  assumes "save_gif_temp_file lib h p w = (Inl e, w')"
  shows "map_option tf_closed (temps w' h) = map_option tf_closed (temps w h)"
  using assms
  by (auto simp: save_gif_temp_file_def temp_seek_def temp_read_def temp_close_def Let_def
      split: if_splits option.splits sum.splits prod.splits)

lemma append_all_raises:
  "\<exists>e frames. append_all lib args (xs @ [Inl x]) acc = Inl (e, frames)"
proof (induction xs arbitrary: acc)
  case Nil
  show ?case by simp
next
  case (Cons a xs)
  show ?case
  proof (cases a)
    case (Inl e)
    then show ?thesis by simp
  next
    case (Inr png)
    with Cons show ?thesis by (simp split: sum.splits option.splits)
  qed
qed

lemma pngs_to_gif_raises:
  assumes "append_all lib (writer_kwargs loop duration fps palettesize subrectangles) ps [] = Inl (e, frames)"
  shows "isl (fst (pngs_to_gif lib ps loop duration fps palettesize subrectangles w))"
  using assms
  by (simp add: pngs_to_gif_def TemporaryFile_def Let_def split: option.splits)


lemma game_to_gif_encoder_raises:
  assumes enc: "pngs_to_gif lib (pngs lib (svgs lib (game_to_boards_and_last_moves lib game add_initial_position)
            highlight_last_move orientation board_size coordinates style)) loop duration fps palettesize subrectangles w = (Inl e, w1)"
  shows "game_to_gif lib game gif_path add_initial_position highlight_last_move orientation
      board_size coordinates style loop duration fps palettesize subrectangles w = (Inl e, w1) \<and>
      files w1 = files w \<and> dirs w1 = dirs w"
  using pngs_to_gif_files[OF enc] by (simp add: game_to_gif_def Let_def enc)

lemma no_game_fails:
  "isl (fst (game_to_gif lib None gif_path add_initial_position highlight_last_move orientation
      board_size coordinates style loop duration fps palettesize subrectangles w)) \<and>
   files (snd (game_to_gif lib None gif_path add_initial_position highlight_last_move orientation
      board_size coordinates style loop duration fps palettesize subrectangles w)) = files w \<and>
   dirs (snd (game_to_gif lib None gif_path add_initial_position highlight_last_move orientation
      board_size coordinates style loop duration fps palettesize subrectangles w)) = dirs w"
proof -
  let ?ps = "pngs lib (svgs lib (game_to_boards_and_last_moves lib None add_initial_position)
            highlight_last_move orientation board_size coordinates style)"
  let ?kw = "writer_kwargs loop duration fps palettesize subrectangles"
  have "\<exists>xs x. ?ps = xs @ [Inl x]"
    by (simp add: pngs_def svgs_def gen_map_def game_to_boards_and_last_moves_def)
  then obtain xs x where "?ps = xs @ [Inl x]" by blast
  with append_all_raises[of lib ?kw xs x "[]"] obtain e frames where
    "append_all lib ?kw ?ps [] = Inl (e, frames)" by auto
  from pngs_to_gif_raises[OF this, of w] obtain e' w1 where
    "pngs_to_gif lib ?ps loop duration fps palettesize subrectangles w = (Inl e', w1)"
    by (cases "pngs_to_gif lib ?ps loop duration fps palettesize subrectangles w") (auto simp: isl_def)
  from game_to_gif_encoder_raises[OF this, of gif_path] show ?thesis by simp
qed

section \<open>The entry points\<close>

lemma cli_uncaught:
  "isl (fst p) \<Longrightarrow>
   (case p of (Inl e, w') \<Rightarrow> (Inl (Uncaught e), w') | (Inr u, w') \<Rightarrow> (Inr (), w')) =
   (Inl (Uncaught (projl (fst p))), snd p)"
  by (cases p; cases "fst p"; simp)

lemma pgn_to_gif_no_game:
  assumes "read_game lib pgn = Inl e \<or> read_game lib pgn = Inr None"
  shows "isl (fst (pgn_to_gif lib pgn gp ai hl orn bsz co st lp du fp ps sr w)) \<and>
      files (snd (pgn_to_gif lib pgn gp ai hl orn bsz co st lp du fp ps sr w)) = files w \<and>
      dirs (snd (pgn_to_gif lib pgn gp ai hl orn bsz co st lp du fp ps sr w)) = dirs w"
  using assms
proof
  assume "read_game lib pgn = Inl e"
  then have "pgn_to_gif lib pgn gp ai hl orn bsz co st lp du fp ps sr w = (Inl e, w)"
    by (simp add: pgn_to_gif_def pgn_to_game_def)
  then show ?thesis by simp
next
  assume "read_game lib pgn = Inr None"
  then have "pgn_to_gif lib pgn gp ai hl orn bsz co st lp du fp ps sr w =
      game_to_gif lib None gp ai hl orn bsz co st lp du fp ps sr w"
    by (simp add: pgn_to_gif_def pgn_to_game_def)
  then show ?thesis
    by (simp only: no_game_fails)
qed

lemma game_errors_unread:
  "game_to_boards_and_last_moves lib (Some (g\<lparr>game_errors := []\<rparr>)) add_initial_position =
   game_to_boards_and_last_moves lib (Some g) add_initial_position"
  by (simp add: game_to_boards_and_last_moves_def mainline_moves_def mainline_def
      node_board_def Game_board_def)

lemma pgn_to_gif_game:
  assumes "read_game lib pgn = Inr (Some g)"
  shows "pgn_to_gif lib pgn gif_path add_initial_position highlight_last_move orientation
        board_size coordinates style loop duration fps palettesize subrectangles w =
      game_to_gif lib (Some (g\<lparr>game_errors := []\<rparr>)) gif_path add_initial_position
        highlight_last_move orientation board_size coordinates style loop duration fps
        palettesize subrectangles w"
  using assms by (simp add: pgn_to_gif_def pgn_to_game_def game_to_gif_def game_errors_unread)

lemma parse_args_cases: "parse_args argv = Inl UsageError \<or> parse_args argv = Inr argv"
  by (simp add: parse_args_def check_choices_def)

lemma cli_main_no_game:
  assumes r: "read_pgn (arg_pgn_path argv) w = Inr pgn"
    and p: "read_game lib pgn = Inl e \<or> read_game lib pgn = Inr None"
  shows "exit_status (fst (cli_main lib argv w)) \<noteq> 0 \<and> files (snd (cli_main lib argv w)) = files w"
  using parse_args_cases[of argv]
proof
  assume "parse_args argv = Inl UsageError"
  then show ?thesis by (simp add: cli_main_def exit_status_def)
next
  assume a: "parse_args argv = Inr argv"
  note fails = pgn_to_gif_no_game[OF p, THEN conjunct1]
  note same = pgn_to_gif_no_game[OF p, THEN conjunct2, THEN conjunct1]
  show ?thesis
    unfolding cli_main_def a
    by (simp add: r exit_status_def cli_uncaught fails same split: sum.splits option.splits)
qed

lemma lower_tokens:
  "lower ''1'' = ''1''" "lower ''t'' = ''t''" "lower ''true'' = ''true''"
  "lower ''0'' = ''0''" "lower ''f'' = ''f''" "lower ''false'' = ''false''"
  by code_simp+

lemma lower_TRUE: "lower ''TRUE'' = ''true''"
  by code_simp

text \<open>Runs of the model on the concrete inputs.\<close>

lemma e4_e5_run:
  "game_to_gif stub_lib (Some e4_e5) None True True WHITE 400 True None 0 None (Some 1) 16 True w0 =
     (Inr (Some 0),
      snd (game_to_gif stub_lib (Some e4_e5) None True True WHITE 400 True None 0 None (Some 1) 16 True w0))"
  by (simp add: run_defs input_defs)

lemma size_zero_run:
  "fst (game_to_gif stub_lib (Some e4_e5) None True True WHITE 0 True None 0 None (Some 1) 16 True w0) =
     Inl (AssertionError ''size of the board must be positive integer'') \<and>
   temps (snd (game_to_gif stub_lib (Some e4_e5) None True True WHITE 0 True None 0 None (Some 1) 16 True w0)) 0 =
     Some \<lparr>tf_data = [], tf_pos = 0, tf_closed = False\<rparr>"
  by (simp add: run_defs input_defs)

lemma garbage_run:
  "pgn_to_gif stub_lib ''garbage'' (Some [''out'', ''game.gif'']) True True WHITE 400 True None 0
     (Some 1) (Some 1) 64 True w_pgn =
   (Inr None,
    snd (pgn_to_gif stub_lib ''garbage'' (Some [''out'', ''game.gif'']) True True WHITE 400 True
           None 0 (Some 1) (Some 1) 64 True w_pgn))"
  by (simp add: run_defs input_defs w_pgn_def)

lemma garbage_run_file:
  "files (snd (pgn_to_gif stub_lib ''garbage'' (Some [''out'', ''game.gif'']) True True WHITE 400
                 True None 0 (Some 1) (Some 1) 64 True w_pgn)) [''out'', ''game.gif''] =
   Some ''startpos-;''"
  by (simp add: run_defs input_defs w_pgn_def)

lemma cli_main_defaults:
  "cli_main stub_lib argv_defaults w_pgn =
     (case pgn_to_gif stub_lib ''garbage'' (Some [''out'', ''game.gif'']) True True WHITE 400 True
             None 0 (Some 1) (Some 1) 64 True w_pgn of
        (Inl e, w') \<Rightarrow> (Inl (Uncaught e), w')
      | (Inr u, w') \<Rightarrow> (Inr (), w'))"
proof -
  have a: "parse_args argv_defaults = Inr argv_defaults"
    by (simp add: parse_args_def check_choices_def bool_choices_def argv_defaults_def)
  have b: "parse_bool ''true'' = Inr True"
    by (simp add: parse_bool_def lower_tokens)
  have r: "read_pgn [''game.pgn''] w_pgn = Inr ''garbage''"
    by (simp add: read_pgn_def read_file_def w_pgn_def)
  have v: "arg_pgn_path argv_defaults = [''game.pgn'']"
    "arg_gif_path argv_defaults = [''out'', ''game.gif'']"
    "arg_add_initial_position argv_defaults = ''true''"
    "arg_highlight_last_move argv_defaults = ''true''"
    "arg_orientation argv_defaults = ''white''" "arg_size argv_defaults = 400"
    "arg_coordinates argv_defaults = ''true''" "arg_css_path argv_defaults = None"
    "arg_loop argv_defaults = 0" "arg_duration argv_defaults = 1" "arg_fps argv_defaults = 1"
    "arg_palettesize argv_defaults = 64" "arg_subrectangles argv_defaults = ''true''"
    by (simp_all add: argv_defaults_def)
  have o: "parse_orientation ''white'' = Inr WHITE"
    by (simp add: parse_orientation_def)
  show ?thesis
    unfolding cli_main_def a
    by (simp only: v r o b sum.case option.case)
qed

text \<open>
  A rule of two disjoint lists of tokens, as \<open>parse_bool\<close> is one, and what it decides.
\<close>

lemma three_way:
  assumes "T \<inter> F = {}"
    and "r = (if x \<in> T then Inr True else if x \<in> F then Inr False else Inl e)"
  shows "(r = Inr True \<longleftrightarrow> x \<in> T) \<and> (r = Inr False \<longleftrightarrow> x \<in> F) \<and>
         (isl r \<longleftrightarrow> x \<notin> T \<union> F)"
  using assms by auto

lemma tokens_disjoint: "{''1'', ''t'', ''true''} \<inter> {''0'', ''f'', ''false''} = ({} :: string set)"
  by simp

lemma tokens_union:
  "{''1'', ''t'', ''true''} \<union> {''0'', ''f'', ''false''} =
   {''1'', ''t'', ''true'', ''0'', ''f'', ''false''}"
  by (simp only: Un_insert_left Un_empty_left)

lemma parse_bool_sets:
  "parse_bool s =
     (if lower s \<in> {''1'', ''t'', ''true''} then Inr True
      else if lower s \<in> {''0'', ''f'', ''false''} then Inr False
      else Inl (ValueError (''cannot parse to bool, '' @ s)))"
  unfolding parse_bool_def Let_def list.set ..

lemma parse_bool_tokens:
  "parse_bool ''1'' = Inr True" "parse_bool ''t'' = Inr True" "parse_bool ''true'' = Inr True"
  "parse_bool ''0'' = Inr False" "parse_bool ''f'' = Inr False" "parse_bool ''false'' = Inr False"
  by (simp_all add: parse_bool_def lower_tokens)

lemma cli_bool_flag_cases:
  "cli_bool_flag s =
     (if s = ''1'' \<or> s = ''t'' \<or> s = ''true'' then Inr True
      else if s = ''0'' \<or> s = ''f'' \<or> s = ''false'' then Inr False
      else Inl UsageError)"
  using parse_bool_tokens
  by (simp add: cli_bool_flag_def check_choices_def bool_choices_def)

lemma cli_bool_flag_sets:
  "cli_bool_flag s =
     (if s \<in> {''1'', ''t'', ''true''} then Inr True
      else if s \<in> {''0'', ''f'', ''false''} then Inr False
      else Inl UsageError)"
  unfolding cli_bool_flag_cases by (simp only: insert_iff empty_iff simp_thms)

section \<open>The claims\<close>

text \<open>
  C1. For a parsed game with \<open>N\<close> mainline moves the sequence of
  \<open>game_to_boards_and_last_moves\<close> has \<open>N + 1\<close> elements when \<open>add_initial_position\<close>
  is true and \<open>N\<close> otherwise; and when \<open>game_to_gif\<close> succeeds, the images appended to
  the writer are that many, and the GIF stream of exactly these images is what the
  returned temporary file, or the destination file, holds.
\<close>

theorem frame_count:
  "length (game_to_boards_and_last_moves lib (Some g) add_initial_position) =
     length (mainline_moves g) + (if add_initial_position then 1 else 0) \<and>
   (game_to_gif lib (Some g) gif_path add_initial_position highlight_last_move orientation
      board_size coordinates style loop duration fps palettesize subrectangles w = (Inr r, w') \<longrightarrow>
    (\<exists>frames.
       append_all lib (writer_kwargs loop duration fps palettesize subrectangles)
         (pngs lib (svgs lib (game_to_boards_and_last_moves lib (Some g) add_initial_position)
            highlight_last_move orientation board_size coordinates style)) [] = Inr frames \<and>
       length frames = length (mainline_moves g) + (if add_initial_position then 1 else 0) \<and>
       (case gif_path of
          None \<Rightarrow> r = Some (next_temp w) \<and>
            map_option tf_data (temps w' (next_temp w)) =
              Some (gif_bytes lib (writer_kwargs loop duration fps palettesize subrectangles) frames)
        | Some p \<Rightarrow>
            files w' p =
              Some (gif_bytes lib (writer_kwargs loop duration fps palettesize subrectangles) frames))))"
proof (intro conjI impI)
  show len: "length (game_to_boards_and_last_moves lib (Some g) add_initial_position) =
     length (mainline_moves g) + (if add_initial_position then 1 else 0)"
    by (simp add: game_to_boards_and_last_moves_def mainline_length)
  let ?ps = "pngs lib (svgs lib (game_to_boards_and_last_moves lib (Some g) add_initial_position)
            highlight_last_move orientation board_size coordinates style)"
  let ?kw = "writer_kwargs loop duration fps palettesize subrectangles"
  have lps: "length ?ps = length (mainline_moves g) + (if add_initial_position then 1 else 0)"
    using len by (simp add: pngs_def svgs_def gen_map_length)
  assume run: "game_to_gif lib (Some g) gif_path add_initial_position highlight_last_move orientation
      board_size coordinates style loop duration fps palettesize subrectangles w = (Inr r, w')"
  then obtain h w1 where enc: "pngs_to_gif lib ?ps loop duration fps palettesize subrectangles w = (Inr h, w1)"
    by (auto simp: game_to_gif_def Let_def split: prod.splits sum.splits)
  from pngs_to_gif_Inr[OF enc] obtain frames where
    fr: "append_all lib ?kw ?ps [] = Inr frames" and h: "h = next_temp w" and
    t: "temps w1 = (temps w)(h \<mapsto> \<lparr>tf_data = gif_bytes lib ?kw frames,
                              tf_pos = length (gif_bytes lib ?kw frames), tf_closed = False\<rparr>)"
    by blast
  have lf: "length frames = length (mainline_moves g) + (if add_initial_position then 1 else 0)"
    using append_all_length[OF fr] lps by simp
  have "case gif_path of
          None \<Rightarrow> r = Some (next_temp w) \<and>
            map_option tf_data (temps w' (next_temp w)) = Some (gif_bytes lib ?kw frames)
        | Some p \<Rightarrow> files w' p = Some (gif_bytes lib ?kw frames)"
  proof (cases gif_path)
    case None
    with run enc h t show ?thesis
      by (auto simp: game_to_gif_def Let_def)
  next
    case (Some p)
    with run enc obtain u where sv: "save_gif_temp_file lib h p w1 = (Inr u, w')"
      by (auto simp: game_to_gif_def Let_def split: prod.splits sum.splits)
    from t have "temps w1 h = Some \<lparr>tf_data = gif_bytes lib ?kw frames,
                              tf_pos = length (gif_bytes lib ?kw frames), tf_closed = False\<rparr>"
      by simp
    from save_gif_temp_file_Inr[OF sv this] Some show ?thesis by simp
  qed
  with fr lf show "\<exists>frames.
       append_all lib ?kw ?ps [] = Inr frames \<and>
       length frames = length (mainline_moves g) + (if add_initial_position then 1 else 0) \<and>
       (case gif_path of
          None \<Rightarrow> r = Some (next_temp w) \<and>
            map_option tf_data (temps w' (next_temp w)) = Some (gif_bytes lib ?kw frames)
        | Some p \<Rightarrow> files w' p = Some (gif_bytes lib ?kw frames))"
    by blast
qed

theorem frame_count_witness:
  "length (mainline_moves e4_e5) = 2 \<and>
   (\<exists>frames. length frames = 3 \<and>
      map_option tf_data
        (temps (snd (game_to_gif stub_lib (Some e4_e5) None True True WHITE 400 True None 0 None
                       (Some 1) 16 True w0)) 0) =
      Some (gif_bytes stub_lib (writer_kwargs 0 None (Some 1) 16 True) frames))"
proof -
  have n: "length (mainline_moves e4_e5) = 2"
    by (simp add: mainline_moves_def e4_e5_def)
  have z: "next_temp w0 = 0" by (simp add: w0_def)
  from frame_count[of stub_lib e4_e5 True None True WHITE 400 True None 0 None "Some 1" 16 True w0
      "Some 0" "snd (game_to_gif stub_lib (Some e4_e5) None True True WHITE 400 True None 0 None (Some 1) 16 True w0)"]
    e4_e5_run n z
  show ?thesis by auto
qed

text \<open>
  C2, as amended. For a parsed game the sequence holds, after the initial element when there
  is one, for the \<open>i\<close>-th mainline move the pair of the board reached by pushing the first
  \<open>i + 1\<close> mainline moves onto the game's own starting position \<open>game.board()\<close>, and
  that move. For a game with neither a \<open>Variant\<close> nor a \<open>FEN\<close> header the game's own
  starting position is the standard starting position, and with \<open>add_initial_position\<close>
  the first element is that position with no move.
\<close>

theorem boards_and_last_moves_replay:
  "drop (if add_initial_position then 1 else 0)
     (game_to_boards_and_last_moves lib (Some g) add_initial_position) =
     map (\<lambda>i. Inr (foldl (Board_push lib) (Game_board lib g) (take (Suc i) (mainline_moves g)),
                    Some (mainline_moves g ! i)))
       [0..<length (mainline_moves g)] \<and>
   (map_of (game_headers g) ''Variant'' = None \<and> map_of (game_headers g) ''FEN'' = None \<longrightarrow>
      Game_board lib g = chess_Board lib \<and>
      game_to_boards_and_last_moves lib (Some g) True ! 0 = Inr (Game_board lib g, None))"
  using game_moves_boards[of lib g]
  by (simp add: game_to_boards_and_last_moves_def Game_board_def)

theorem boards_and_last_moves_replay_witness:
  "game_to_boards_and_last_moves stub_lib (Some e4_e5) True ! 0 = Inr ([''startpos''], None) \<and>
   drop 1 (game_to_boards_and_last_moves stub_lib (Some e4_e5) True) =
     [Inr ([''startpos'', ''e4''], Some ''e4''), Inr ([''startpos'', ''e4'', ''e5''], Some ''e5'')] \<and>
   drop 0 (game_to_boards_and_last_moves stub_lib (Some racing_kings) False) =
     [Inr ([''Racing Kings'', ''startpos'', ''Kh3''], Some ''Kh3'')]"
proof -
  have h: "map_of (game_headers e4_e5) ''Variant'' = None \<and>
      map_of (game_headers e4_e5) ''FEN'' = None"
    by (simp add: e4_e5_def)
  have m: "mainline_moves e4_e5 = [''e4'', ''e5'']" "mainline_moves racing_kings = [''Kh3'']"
    by (simp_all add: mainline_moves_def e4_e5_def racing_kings_def)
  have b: "chess_Board stub_lib = [''startpos'']"
    "Game_board stub_lib racing_kings = [''Racing Kings'', ''startpos'']"
    "Board_push stub_lib = (\<lambda>b m. b @ [m])"
    by (simp_all add: stub_lib_def Game_board_def racing_kings_def)
  have u: "[0..<2] = [0, Suc 0]" "[0..<1] = [0]"
    by (simp_all add: upt_rec)
  note t = boards_and_last_moves_replay[of True stub_lib e4_e5]
  note t1 = t[THEN conjunct1]
  note t2 = t[THEN conjunct2, rule_format, OF h]
  note r = boards_and_last_moves_replay[of False stub_lib racing_kings, THEN conjunct1]
  from t1 t2 r show ?thesis
    by (simp add: m b u)
qed

text \<open>
  The claim as stated replays the moves from the standard starting position. A game with a
  \<open>FEN\<close> header refutes it: its first element is the standard position, its second is
  not the standard position with the first move pushed.
\<close>

theorem boards_and_last_moves_fen_counterexample:
  "game_to_boards_and_last_moves stub_lib (Some from_fen) True ! 0 = Inr (chess_Board stub_lib, None) \<and>
   game_to_boards_and_last_moves stub_lib (Some from_fen) True ! 1 \<noteq>
     Inr (foldl (Board_push stub_lib) (chess_Board stub_lib) (take 1 (mainline_moves from_fen)),
          Some (mainline_moves from_fen ! 0))"
  by (simp add: game_to_boards_and_last_moves_def stub_lib_def from_fen_def mainline_moves_def
      mainline_def node_board_def Game_board_def)

text \<open>
  C3. For every frame the board sequence yields, the generator expression of \<open>game_to_gif\<close>
  calls \<open>board_to_svg\<close> with no last move when \<open>highlight_last_move\<close> is false, whatever
  move the sequence holds for the frame, and with the move of the sequence when it is true.
\<close>

theorem highlight_override:
  assumes "bs = game_to_boards_and_last_moves lib game add_initial_position"
    and "i < length bs" and "bs ! i = Inr (board, last_move)"
  shows "svgs lib bs False orientation board_size coordinates style ! i =
           board_to_svg lib board orientation None board_size coordinates style \<and>
         svgs lib bs True orientation board_size coordinates style ! i =
           board_to_svg lib board orientation last_move board_size coordinates style"
  using assms by (simp add: svgs_def gen_map_def)

theorem highlight_override_witness:
  "game_to_boards_and_last_moves stub_lib (Some e4_e5) True ! 1 = Inr ([''startpos'', ''e4''], Some ''e4'') \<and>
   svgs stub_lib (game_to_boards_and_last_moves stub_lib (Some e4_e5) True) False WHITE 400 True None ! 1 =
     Inr ''startpose4-'' \<and>
   svgs stub_lib (game_to_boards_and_last_moves stub_lib (Some e4_e5) True) True WHITE 400 True None ! 1 =
     Inr ''startpose4+e4''"
proof -
  have b: "game_to_boards_and_last_moves stub_lib (Some e4_e5) True ! 1 = Inr ([''startpos'', ''e4''], Some ''e4'')"
    by (simp add: run_defs input_defs)
  have l: "1 < length (game_to_boards_and_last_moves stub_lib (Some e4_e5) True)"
    by (simp add: run_defs input_defs)
  have r1: "board_to_svg stub_lib [''startpos'', ''e4''] WHITE None 400 True None = Inr ''startpose4-''"
    by (simp add: board_to_svg_def stub_lib_def)
  have r2: "board_to_svg stub_lib [''startpos'', ''e4''] WHITE (Some ''e4'') 400 True None = Inr ''startpose4+e4''"
    by (simp add: board_to_svg_def stub_lib_def)
  from highlight_override[OF refl l b, of WHITE 400 True None] b r1 r2 show ?thesis by simp
qed

text \<open>
  C4. With \<open>duration\<close> and \<open>fps\<close> both \<open>None\<close>, \<open>pngs_to_gif\<close> raises its
  \<open>ValueError\<close> whatever the frames and the libraries are, and leaves the world as it
  was: no frame is pulled, no temporary file is made and no writer is opened.
\<close>

theorem both_timings_unset:
  "pngs_to_gif lib pngs_gen loop None None palettesize subrectangles w =
     (Inl (ValueError ''duration and fps cannot be None at the same time''), w)"
  by (simp add: pngs_to_gif_def)

text \<open>
  C5, as amended. For a size that is not positive \<open>board_to_svg\<close> raises its
  \<open>AssertionError\<close> without calling the renderer. In the pipeline the check runs when the
  first frame is rendered, inside the writer session: when \<open>duration\<close> and \<open>fps\<close> are not
  both \<open>None\<close>, the temporary file and the writer open and the board sequence has a first
  frame, \<open>game_to_gif\<close> fails with that \<open>AssertionError\<close> after the temporary file has been
  made, which it leaves open; no file or directory of the file system is touched.
\<close>

theorem nonpositive_size:
  assumes "board_size \<le> 0"
  shows "board_to_svg lib board orientation last_move board_size coordinates style =
           Inl (AssertionError ''size of the board must be positive integer'') \<and>
         (\<not> (duration = None \<and> fps = None) \<and> tempfile_error lib = None \<and>
          get_writer lib (writer_kwargs loop duration fps palettesize subrectangles) = None \<and>
          game_to_boards_and_last_moves lib game add_initial_position = Inr x # rest \<longrightarrow>
          fst (game_to_gif lib game gif_path add_initial_position highlight_last_move orientation
                 board_size coordinates style loop duration fps palettesize subrectangles w) =
            Inl (AssertionError ''size of the board must be positive integer'') \<and>
          temps (snd (game_to_gif lib game gif_path add_initial_position highlight_last_move orientation
                 board_size coordinates style loop duration fps palettesize subrectangles w)) (next_temp w) =
            Some \<lparr>tf_data = gif_partial lib (writer_kwargs loop duration fps palettesize subrectangles) [],
                  tf_pos = length (gif_partial lib (writer_kwargs loop duration fps palettesize subrectangles) []),
                  tf_closed = False\<rparr> \<and>
          files (snd (game_to_gif lib game gif_path add_initial_position highlight_last_move orientation
                 board_size coordinates style loop duration fps palettesize subrectangles w)) = files w \<and>
          dirs (snd (game_to_gif lib game gif_path add_initial_position highlight_last_move orientation
                 board_size coordinates style loop duration fps palettesize subrectangles w)) = dirs w)"
proof -
  let ?err = "AssertionError ''size of the board must be positive integer''"
  let ?kw = "writer_kwargs loop duration fps palettesize subrectangles"
  let ?ps = "pngs lib (svgs lib (game_to_boards_and_last_moves lib game add_initial_position)
            highlight_last_move orientation board_size coordinates style)"
  have svg: "board_to_svg lib b c m board_size coordinates style = Inl ?err" for b c m
    using assms by (simp add: board_to_svg_def)
  have run: "game_to_gif lib game gif_path add_initial_position highlight_last_move orientation
                 board_size coordinates style loop duration fps palettesize subrectangles w =
             (Inl ?err, temp_write (next_temp w) (gif_partial lib ?kw []) (snd (TemporaryFile lib w)))"
    if t: "\<not> (duration = None \<and> fps = None)" "tempfile_error lib = None" "get_writer lib ?kw = None"
      and b: "game_to_boards_and_last_moves lib game add_initial_position = Inr x # rest"
  proof -
    have "\<exists>ps'. ?ps = Inl ?err # ps'"
      by (cases x) (simp add: pngs_def svgs_def gen_map_def b svg)
    then obtain ps' where "?ps = Inl ?err # ps'" by blast
    then have "append_all lib ?kw ?ps [] = Inl (?err, [])" by simp
    with t have "pngs_to_gif lib ?ps loop duration fps palettesize subrectangles w =
        (Inl ?err, temp_write (next_temp w) (gif_partial lib ?kw []) (snd (TemporaryFile lib w)))"
      by (simp add: pngs_to_gif_def TemporaryFile_def Let_def)
    from game_to_gif_encoder_raises[OF this] show ?thesis by simp
  qed
  have post: "temps (temp_write (next_temp w) d (snd (TemporaryFile lib w))) (next_temp w) =
         Some \<lparr>tf_data = d, tf_pos = length d, tf_closed = False\<rparr> \<and>
       files (temp_write (next_temp w) d (snd (TemporaryFile lib w))) = files w \<and>
       dirs (temp_write (next_temp w) d (snd (TemporaryFile lib w))) = dirs w" for d
    by (simp add: temp_write_def TemporaryFile_def split: option.splits)
  from svg run post show ?thesis by simp
qed

theorem nonpositive_size_witness:
  "(0::int) \<le> 0 \<and>
   board_to_svg stub_lib [''startpos''] WHITE None 0 True None =
     Inl (AssertionError ''size of the board must be positive integer'') \<and>
   fst (game_to_gif stub_lib (Some e4_e5) None True True WHITE 0 True None 0 None (Some 1) 16 True w0) =
     Inl (AssertionError ''size of the board must be positive integer'') \<and>
   temps (snd (game_to_gif stub_lib (Some e4_e5) None True True WHITE 0 True None 0 None (Some 1) 16 True w0)) 0 =
     Some \<lparr>tf_data = [], tf_pos = 0, tf_closed = False\<rparr>"
proof -
  have h: "(0::int) \<le> 0" by simp
  have p: "\<not> (None = (None :: real option) \<and> Some (1::real) = None) \<and> tempfile_error stub_lib = None \<and>
      get_writer stub_lib (writer_kwargs 0 None (Some 1) 16 True) = None \<and>
      game_to_boards_and_last_moves stub_lib (Some e4_e5) True =
        Inr ([''startpos''], None) #
        [Inr ([''startpos'', ''e4''], Some ''e4''), Inr ([''startpos'', ''e4'', ''e5''], Some ''e5'')]"
    by (simp add: run_defs input_defs)
  have z: "next_temp w0 = 0" "gif_partial stub_lib (writer_kwargs 0 None (Some 1) 16 True) [] = []"
    by (simp_all add: w0_def stub_lib_def)
  from nonpositive_size[OF h, where lib = stub_lib and board = "[''startpos'']" and orientation = WHITE
      and last_move = None and coordinates = True and style = None and duration = None
      and fps = "Some 1" and loop = 0 and palettesize = 16 and subrectangles = True
      and game = "Some e4_e5" and add_initial_position = True and gif_path = None
      and highlight_last_move = True and w = w0
      and x = "([''startpos''], None)"
      and rest = "[Inr ([''startpos'', ''e4''], Some ''e4''), Inr ([''startpos'', ''e4'', ''e5''], Some ''e5'')]"]
    p z
  show ?thesis by simp
qed

text \<open>
  The claim as stated has the failure come before any I/O. With size 0 the temporary file,
  which did not exist before the run, exists and is open when the run has failed.
\<close>

theorem nonpositive_size_counterexample:
  "temps w0 0 = None \<and>
   fst (game_to_gif stub_lib (Some e4_e5) None True True WHITE 0 True None 0 None (Some 1) 16 True w0) =
     Inl (AssertionError ''size of the board must be positive integer'') \<and>
   temps (snd (game_to_gif stub_lib (Some e4_e5) None True True WHITE 0 True None 0 None (Some 1) 16 True w0)) 0 =
     Some \<lparr>tf_data = [], tf_pos = 0, tf_closed = False\<rparr>"
  using size_zero_run by (simp add: w0_def)

text \<open>
  C6, as amended. For a game without mainline moves and \<open>add_initial_position\<close> false the
  board sequence is empty and \<open>game_to_gif\<close> runs \<open>pngs_to_gif\<close> on the empty sequence.
  \<open>pngs_to_gif\<close> makes no check of the number of frames: on the empty sequence it fails
  exactly when \<open>duration\<close> and \<open>fps\<close> are both \<open>None\<close> or \<open>TemporaryFile\<close>, the opening of
  the writer or its closing with no image raises, and returns the temporary file otherwise.
\<close>

theorem zero_frame_encode:
  assumes "mainline_moves g = []"
  shows "game_to_boards_and_last_moves lib (Some g) False = [] \<and>
         game_to_gif lib (Some g) gif_path False highlight_last_move orientation
           board_size coordinates style loop duration fps palettesize subrectangles w =
           (case pngs_to_gif lib [] loop duration fps palettesize subrectangles w of
              (Inl e, w1) \<Rightarrow> (Inl e, w1)
            | (Inr gif_temp_file, w1) \<Rightarrow>
                (case gif_path of
                   Some p \<Rightarrow>
                     (case save_gif_temp_file lib gif_temp_file p w1 of
                        (Inl e, w2) \<Rightarrow> (Inl e, w2)
                      | (Inr _, w2) \<Rightarrow> (Inr None, w2))
                 | None \<Rightarrow> (Inr (Some gif_temp_file), w1))) \<and>
         fst (pngs_to_gif lib [] loop duration fps palettesize subrectangles w) =
           (if duration = None \<and> fps = None
            then Inl (ValueError ''duration and fps cannot be None at the same time'')
            else case tempfile_error lib of
                   Some e \<Rightarrow> Inl e
                 | None \<Rightarrow>
                     (case get_writer lib (writer_kwargs loop duration fps palettesize subrectangles) of
                        Some e \<Rightarrow> Inl e
                      | None \<Rightarrow>
                          (case writer_close lib
                                  (writer_kwargs loop duration fps palettesize subrectangles) [] of
                             Some e \<Rightarrow> Inl e
                           | None \<Rightarrow> Inr (next_temp w))))"
proof -
  have m: "mainline g = []"
    using mainline_length[of g] assms by simp
  have a: "game_to_boards_and_last_moves lib (Some g) False = []"
    by (simp add: game_to_boards_and_last_moves_def assms m)
  have b: "pngs lib (svgs lib [] highlight_last_move orientation board_size coordinates style) = []"
    by (simp add: pngs_def svgs_def gen_map_def)
  have c: "game_to_gif lib (Some g) gif_path False highlight_last_move orientation
           board_size coordinates style loop duration fps palettesize subrectangles w =
           (case pngs_to_gif lib [] loop duration fps palettesize subrectangles w of
              (Inl e, w1) \<Rightarrow> (Inl e, w1)
            | (Inr gif_temp_file, w1) \<Rightarrow>
                (case gif_path of
                   Some p \<Rightarrow>
                     (case save_gif_temp_file lib gif_temp_file p w1 of
                        (Inl e, w2) \<Rightarrow> (Inl e, w2)
                      | (Inr _, w2) \<Rightarrow> (Inr None, w2))
                 | None \<Rightarrow> (Inr (Some gif_temp_file), w1)))"
    by (simp add: game_to_gif_def a b)
  have d: "fst (pngs_to_gif lib [] loop duration fps palettesize subrectangles w) =
           (if duration = None \<and> fps = None
            then Inl (ValueError ''duration and fps cannot be None at the same time'')
            else case tempfile_error lib of
                   Some e \<Rightarrow> Inl e
                 | None \<Rightarrow>
                     (case get_writer lib (writer_kwargs loop duration fps palettesize subrectangles) of
                        Some e \<Rightarrow> Inl e
                      | None \<Rightarrow>
                          (case writer_close lib
                                  (writer_kwargs loop duration fps palettesize subrectangles) [] of
                             Some e \<Rightarrow> Inl e
                           | None \<Rightarrow> Inr (next_temp w))))"
    by (simp add: pngs_to_gif_def TemporaryFile_def Let_def split: option.splits)
  from a c d show ?thesis by blast
qed

theorem zero_frame_encode_witness:
  "mainline_moves no_moves = [] \<and>
   game_to_boards_and_last_moves stub_lib (Some no_moves) False = [] \<and>
   fst (pngs_to_gif stub_lib [] 0 None (Some 1) 16 True w0) = Inr 0"
proof -
  have h: "mainline_moves no_moves = []"
    by (simp add: mainline_moves_def no_moves_def)
  from zero_frame_encode[OF h, where lib = stub_lib and loop = 0 and duration = None
      and fps = "Some 1" and palettesize = 16 and subrectangles = True and w = w0] h
  show ?thesis by (simp add: stub_lib_def w0_def)
qed

text \<open>
  The claim as stated has the encoder reject the empty sequence. With a library whose
  writer closes without complaint the run succeeds and writes the destination file.
\<close>

theorem zero_frame_encode_counterexample:
  "mainline_moves no_moves = [] \<and>
   fst (game_to_gif stub_lib (Some no_moves) (Some [''out'', ''game.gif'']) False True WHITE 400 True
          None 0 None (Some 1) 16 True w0) = Inr None \<and>
   files (snd (game_to_gif stub_lib (Some no_moves) (Some [''out'', ''game.gif'']) False True WHITE 400
                 True None 0 None (Some 1) 16 True w0)) [''out'', ''game.gif''] = Some '';''"
  by (simp add: run_defs input_defs)

text \<open>
  C8, as amended. On a temporary file \<open>t\<close>, \<open>save_gif_temp_file\<close> succeeds exactly when
  \<open>mkdir\<close>, \<open>open\<close> and \<open>write\<close> do not raise and \<open>t\<close> is open; then the parent of the
  destination and its ancestors are directories, the destination holds all the data of
  \<open>t\<close> from its beginning, and \<open>t\<close> is closed. When it fails, \<open>t\<close> is left as open or
  closed as it was: the function does not close it.
\<close>

theorem save_gif_temp_file_paths:
  assumes "temps w h = Some t"
  shows "(fst (save_gif_temp_file lib h p w) = Inr () \<longleftrightarrow>
            mkdir_error lib (parent p) = None \<and> \<not> tf_closed t \<and> open_error lib p = None \<and>
            write_error lib p (tf_data t) = None) \<and>
         (save_gif_temp_file lib h p w = (Inr u, w') \<longrightarrow>
            set (ancestors (parent p)) \<subseteq> dirs w' \<and> files w' p = Some (tf_data t) \<and>
            map_option tf_closed (temps w' h) = Some True) \<and>
         (save_gif_temp_file lib h p w = (Inl e, w') \<longrightarrow>
            map_option tf_closed (temps w' h) = Some (tf_closed t))"
proof -
  have a: "fst (save_gif_temp_file lib h p w) = Inr () \<longleftrightarrow>
            mkdir_error lib (parent p) = None \<and> \<not> tf_closed t \<and> open_error lib p = None \<and>
            write_error lib p (tf_data t) = None"
    using assms
    by (auto simp: save_gif_temp_file_def temp_seek_def temp_read_def temp_close_def Let_def
        split: option.splits)
  have b: "set (ancestors (parent p)) \<subseteq> dirs w' \<and> files w' p = Some (tf_data t) \<and>
            map_option tf_closed (temps w' h) = Some True"
    if "save_gif_temp_file lib h p w = (Inr u, w')"
    using save_gif_temp_file_Inr[OF that assms] by simp
  have c: "map_option tf_closed (temps w' h) = Some (tf_closed t)"
    if "save_gif_temp_file lib h p w = (Inl e, w')"
    using save_gif_temp_file_Inl[OF that] assms by simp
  from a b c show ?thesis by blast
qed

theorem save_gif_temp_file_paths_witness:
  "fst (save_gif_temp_file stub_lib 0 [''out'', ''a.gif''] w_gif) = Inr () \<and>
   [''out''] \<in> dirs (snd (save_gif_temp_file stub_lib 0 [''out'', ''a.gif''] w_gif)) \<and>
   files (snd (save_gif_temp_file stub_lib 0 [''out'', ''a.gif''] w_gif)) [''out'', ''a.gif''] = Some ''GIF89a'' \<and>
   map_option tf_closed (temps (snd (save_gif_temp_file stub_lib 0 [''out'', ''a.gif''] w_gif)) 0) = Some True \<and>
   fst (save_gif_temp_file read_only_lib 0 [''out'', ''a.gif''] w_gif) = Inl (OSError ''Permission denied'') \<and>
   map_option tf_closed (temps (snd (save_gif_temp_file read_only_lib 0 [''out'', ''a.gif''] w_gif)) 0) = Some False"
proof -
  let ?t = "\<lparr>tf_data = ''GIF89a'', tf_pos = 6, tf_closed = False\<rparr>"
  have t: "temps w_gif 0 = Some ?t" by (simp add: w_gif_def)
  have ok: "mkdir_error stub_lib (parent [''out'', ''a.gif'']) = None \<and> \<not> tf_closed ?t \<and>
      open_error stub_lib [''out'', ''a.gif''] = None \<and>
      write_error stub_lib [''out'', ''a.gif''] (tf_data ?t) = None"
    by (simp add: stub_lib_def)
  have anc: "[''out''] \<in> set (ancestors (parent [''out'', ''a.gif'']))"
    by (simp add: parent_def)
  have bad: "fst (save_gif_temp_file read_only_lib 0 [''out'', ''a.gif''] w_gif) = Inl (OSError ''Permission denied'')"
    by (simp add: run_defs read_only_lib_def stub_lib_def w_gif_def)
  note s = save_gif_temp_file_paths[OF t, where lib = stub_lib and p = "[''out'', ''a.gif'']"
      and w' = "snd (save_gif_temp_file stub_lib 0 [''out'', ''a.gif''] w_gif)" and u = "()"]
  note f = save_gif_temp_file_paths[OF t, where lib = read_only_lib and p = "[''out'', ''a.gif'']"
      and w' = "snd (save_gif_temp_file read_only_lib 0 [''out'', ''a.gif''] w_gif)"
      and e = "OSError ''Permission denied''"]
  from s ok have r: "fst (save_gif_temp_file stub_lib 0 [''out'', ''a.gif''] w_gif) = Inr ()" by blast
  then have "save_gif_temp_file stub_lib 0 [''out'', ''a.gif''] w_gif =
      (Inr (), snd (save_gif_temp_file stub_lib 0 [''out'', ''a.gif''] w_gif))"
    by (simp add: prod_eq_iff)
  with s anc have s': "[''out''] \<in> dirs (snd (save_gif_temp_file stub_lib 0 [''out'', ''a.gif''] w_gif)) \<and>
   files (snd (save_gif_temp_file stub_lib 0 [''out'', ''a.gif''] w_gif)) [''out'', ''a.gif''] = Some ''GIF89a'' \<and>
   map_option tf_closed (temps (snd (save_gif_temp_file stub_lib 0 [''out'', ''a.gif''] w_gif)) 0) = Some True"
    by auto
  from bad have "save_gif_temp_file read_only_lib 0 [''out'', ''a.gif''] w_gif =
      (Inl (OSError ''Permission denied''), snd (save_gif_temp_file read_only_lib 0 [''out'', ''a.gif''] w_gif))"
    by (simp add: prod_eq_iff)
  with f have "map_option tf_closed (temps (snd (save_gif_temp_file read_only_lib 0 [''out'', ''a.gif''] w_gif)) 0) = Some False"
    by simp
  with r s' bad show ?thesis by simp
qed

text \<open>
  The claim as stated has the temporary file released on every failure path. With a
  destination that cannot be opened the function fails and the file is still open.
\<close>

theorem save_gif_temp_file_leak_counterexample:
  "fst (save_gif_temp_file read_only_lib 0 [''out'', ''a.gif''] w_gif) = Inl (OSError ''Permission denied'') \<and>
   map_option tf_closed (temps (snd (save_gif_temp_file read_only_lib 0 [''out'', ''a.gif''] w_gif)) 0) = Some False"
  by (simp add: run_defs read_only_lib_def stub_lib_def w_gif_def)

text \<open>
  C7, as amended. \<open>pgn_to_gif\<close> raises no error of its own on a text: it hands what the
  parser returns to \<open>game_to_gif\<close> unchecked. When the parser raises, its error leaves
  \<open>pgn_to_gif\<close> with the world untouched; when the parser returns \<open>None\<close>, the run fails
  past the parsing stage and no file or directory of the file system is touched; in both
  cases the entry point leaves with a status that is not 0 and the files as they were.
  When the parser returns a game, the run is the run of \<open>game_to_gif\<close> on that game, and
  the errors the parser collected in the game are not read.
\<close>

theorem parser_result_unchecked:
  "(read_game lib pgn = Inl e \<longrightarrow>
      pgn_to_gif lib pgn gif_path add_initial_position highlight_last_move orientation
        board_size coordinates style loop duration fps palettesize subrectangles w = (Inl e, w)) \<and>
   (read_game lib pgn = Inr None \<longrightarrow>
      isl (fst (pgn_to_gif lib pgn gif_path add_initial_position highlight_last_move orientation
        board_size coordinates style loop duration fps palettesize subrectangles w)) \<and>
      files (snd (pgn_to_gif lib pgn gif_path add_initial_position highlight_last_move orientation
        board_size coordinates style loop duration fps palettesize subrectangles w)) = files w \<and>
      dirs (snd (pgn_to_gif lib pgn gif_path add_initial_position highlight_last_move orientation
        board_size coordinates style loop duration fps palettesize subrectangles w)) = dirs w) \<and>
   (read_game lib pgn = Inr (Some g) \<longrightarrow>
      pgn_to_gif lib pgn gif_path add_initial_position highlight_last_move orientation
        board_size coordinates style loop duration fps palettesize subrectangles w =
      game_to_gif lib (Some (g\<lparr>game_errors := []\<rparr>)) gif_path add_initial_position
        highlight_last_move orientation board_size coordinates style loop duration fps
        palettesize subrectangles w) \<and>
   (read_pgn (arg_pgn_path argv) w = Inr pgn \<and>
    (read_game lib pgn = Inl e \<or> read_game lib pgn = Inr None) \<longrightarrow>
      exit_status (fst (cli_main lib argv w)) \<noteq> 0 \<and>
      files (snd (cli_main lib argv w)) = files w)"
proof -
  have a: "pgn_to_gif lib pgn gif_path add_initial_position highlight_last_move orientation
        board_size coordinates style loop duration fps palettesize subrectangles w = (Inl e, w)"
    if "read_game lib pgn = Inl e"
    using that by (simp add: pgn_to_gif_def pgn_to_game_def)
  note b = pgn_to_gif_no_game[of lib pgn e gif_path add_initial_position highlight_last_move
      orientation board_size coordinates style loop duration fps palettesize subrectangles w]
  note c = pgn_to_gif_game[of lib pgn g gif_path add_initial_position highlight_last_move
      orientation board_size coordinates style loop duration fps palettesize subrectangles w]
  note d = cli_main_no_game[of argv w pgn lib e]
  from a b c d show ?thesis by blast
qed

theorem parser_result_unchecked_witness:
  "pgn_to_gif raising_lib ''garbage'' (Some [''out'', ''game.gif'']) True True WHITE 400 True None 0
     (Some 1) (Some 1) 64 True w_pgn = (Inl (LibraryError ''no game''), w_pgn) \<and>
   exit_status (fst (cli_main raising_lib argv_defaults w_pgn)) \<noteq> 0 \<and>
   files (snd (cli_main raising_lib argv_defaults w_pgn)) = files w_pgn \<and>
   isl (fst (pgn_to_gif no_game_lib ''garbage'' (Some [''out'', ''game.gif'']) True True WHITE 400
               True None 0 (Some 1) (Some 1) 64 True w_pgn)) \<and>
   pgn_to_gif stub_lib ''garbage'' (Some [''out'', ''game.gif'']) True True WHITE 400 True None 0
     (Some 1) (Some 1) 64 True w_pgn =
   game_to_gif stub_lib (Some (no_moves\<lparr>game_errors := []\<rparr>)) (Some [''out'', ''game.gif'']) True
     True WHITE 400 True None 0 (Some 1) (Some 1) 64 True w_pgn"
proof -
  have r: "read_pgn (arg_pgn_path argv_defaults) w_pgn = Inr ''garbage''"
    by (simp add: read_pgn_def read_file_def argv_defaults_def w_pgn_def)
  have p1: "read_game raising_lib ''garbage'' = Inl (LibraryError ''no game'')"
    by (simp add: raising_lib_def stub_lib_def)
  have p2: "read_game no_game_lib ''garbage'' = Inr None"
    by (simp add: no_game_lib_def)
  have p3: "read_game stub_lib ''garbage'' = Inr (Some no_moves)"
    by (simp add: stub_lib_def no_moves_def)
  note t1 = parser_result_unchecked[where lib = raising_lib and pgn = "''garbage''"
      and e = "LibraryError ''no game''" and argv = argv_defaults and w = w_pgn
      and gif_path = "Some [''out'', ''game.gif'']" and add_initial_position = True
      and highlight_last_move = True and orientation = WHITE and board_size = 400
      and coordinates = True and style = None and loop = 0 and duration = "Some 1"
      and fps = "Some 1" and palettesize = 64 and subrectangles = True]
  note t2 = parser_result_unchecked[where lib = no_game_lib
      and pgn = "''garbage''" and w = w_pgn
      and gif_path = "Some [''out'', ''game.gif'']" and add_initial_position = True
      and highlight_last_move = True and orientation = WHITE and board_size = 400
      and coordinates = True and style = None and loop = 0 and duration = "Some 1"
      and fps = "Some 1" and palettesize = 64 and subrectangles = True]
  note t3 = parser_result_unchecked[where lib = stub_lib and pgn = "''garbage''" and g = no_moves
      and w = w_pgn
      and gif_path = "Some [''out'', ''game.gif'']" and add_initial_position = True
      and highlight_last_move = True and orientation = WHITE and board_size = 400
      and coordinates = True and style = None and loop = 0 and duration = "Some 1"
      and fps = "Some 1" and palettesize = 64 and subrectangles = True]
  note c1 = t1[THEN conjunct1, rule_format, OF p1]
  note c1' = t1[THEN conjunct2, THEN conjunct2, THEN conjunct2, rule_format,
      OF conjI[OF r disjI1[OF p1]]]
  note c2 = t2[THEN conjunct2, THEN conjunct1, rule_format, OF p2, THEN conjunct1]
  note c3 = t3[THEN conjunct2, THEN conjunct2, THEN conjunct1, rule_format, OF p3]
  from c1 c1' c2 c3 show ?thesis by blast
qed

text \<open>
  The claim as stated has every text that is no PGN fail. With a parser that raises on no
  text and finds a game without moves in \<open>garbage\<close>, the entry point returns, the status
  is 0, and the destination file is written with the one frame of the initial position.
\<close>

theorem garbage_pgn_counterexample:
  "files w_pgn [''game.pgn''] = Some ''garbage'' \<and>
   read_game stub_lib ''garbage'' = Inr (Some no_moves) \<and>
   fst (cli_main stub_lib argv_defaults w_pgn) = Inr () \<and>
   exit_status (fst (cli_main stub_lib argv_defaults w_pgn)) = 0 \<and>
   files (snd (cli_main stub_lib argv_defaults w_pgn)) [''out'', ''game.gif''] = Some ''startpos-;''"
proof -
  have m: "cli_main stub_lib argv_defaults w_pgn =
     (Inr (), snd (pgn_to_gif stub_lib ''garbage'' (Some [''out'', ''game.gif'']) True True WHITE
                     400 True None 0 (Some 1) (Some 1) 64 True w_pgn))"
    by (subst cli_main_defaults, subst garbage_run) simp
  have i: "files w_pgn [''game.pgn''] = Some ''garbage''"
    "read_game stub_lib ''garbage'' = Inr (Some no_moves)"
    by (simp_all add: w_pgn_def stub_lib_def no_moves_def)
  from i show ?thesis
    by (simp add: m garbage_run_file exit_status_def)
qed

text \<open>
  C9, as amended. \<open>parse_bool\<close> yields true exactly when the lowercased string is one of
  \<open>1\<close>, \<open>t\<close>, \<open>true\<close>, false exactly when it is one of \<open>0\<close>, \<open>f\<close>, \<open>false\<close>, and
  raises otherwise. At the entry point of \<open>cli.py\<close> the choices of \<open>argparse\<close> come
  first and compare the string as it is written: a flag yields true exactly when the
  string is one of \<open>1\<close>, \<open>t\<close>, \<open>true\<close>, false exactly when it is one of \<open>0\<close>, \<open>f\<close>,
  \<open>false\<close>, and the run fails for every other string. At the entry point of \<open>main.py\<close>
  a string given for a flag is true exactly when it is not empty.
\<close>

theorem bool_flags:
  "(parse_bool s = Inr True \<longleftrightarrow> lower s \<in> {''1'', ''t'', ''true''}) \<and>
   (parse_bool s = Inr False \<longleftrightarrow> lower s \<in> {''0'', ''f'', ''false''}) \<and>
   (isl (parse_bool s) \<longleftrightarrow> lower s \<notin> {''1'', ''t'', ''true'', ''0'', ''f'', ''false''}) \<and>
   (cli_bool_flag s = Inr True \<longleftrightarrow> s \<in> {''1'', ''t'', ''true''}) \<and>
   (cli_bool_flag s = Inr False \<longleftrightarrow> s \<in> {''0'', ''f'', ''false''}) \<and>
   (isl (cli_bool_flag s) \<longleftrightarrow> s \<notin> {''1'', ''t'', ''true'', ''0'', ''f'', ''false''}) \<and>
   (main_bool_flag (Some s) \<longleftrightarrow> s \<noteq> [])"
proof -
  note a = three_way[OF tokens_disjoint parse_bool_sets, of s, unfolded tokens_union]
  note b = three_way[OF tokens_disjoint cli_bool_flag_sets, of s, unfolded tokens_union]
  have c: "main_bool_flag (Some s) \<longleftrightarrow> s \<noteq> []"
    by (simp add: main_bool_flag_def type_bool_def)
  note a1 = a[THEN conjunct1] and a2 = a[THEN conjunct2, THEN conjunct1]
    and a3 = a[THEN conjunct2, THEN conjunct2]
  note b1 = b[THEN conjunct1] and b2 = b[THEN conjunct2, THEN conjunct1]
    and b3 = b[THEN conjunct2, THEN conjunct2]
  show ?thesis
    by (intro conjI) (rule a1 a2 a3 b1 b2 b3 c)+
qed

theorem bool_flags_witness:
  "parse_bool ''TRUE'' = Inr True \<and> isl (cli_bool_flag ''TRUE'') \<and> main_bool_flag (Some ''TRUE'')"
  using bool_flags[of "''TRUE''"] by (simp add: lower_TRUE)

text \<open>
  The claim as stated has the entry point match the lowercased string. The string
  \<open>TRUE\<close> lowercases to \<open>true\<close>, and the entry point rejects it.
\<close>

theorem bool_flags_counterexample:
  "lower ''TRUE'' \<in> {''1'', ''t'', ''true''} \<and> cli_bool_flag ''TRUE'' = Inl UsageError"
  by (simp add: lower_TRUE cli_bool_flag_def check_choices_def bool_choices_def)

text \<open>
  C10. When \<open>game_to_gif\<close> or \<open>pgn_to_gif\<close> succeeds: without a destination the result is
  the temporary file made by the run, which is open, and the files and directories of the
  file system are as they were; with a destination the result is \<open>None\<close> and the
  destination file exists and holds the data of that temporary file.
\<close>

theorem return_or_persist:
  "(game_to_gif lib game gif_path add_initial_position highlight_last_move orientation
      board_size coordinates style loop duration fps palettesize subrectangles w = (Inr r, w') \<longrightarrow>
    (case gif_path of
       None \<Rightarrow> r = Some (next_temp w) \<and>
         map_option tf_closed (temps w' (next_temp w)) = Some False \<and>
         files w' = files w \<and> dirs w' = dirs w
     | Some p \<Rightarrow> r = None \<and> files w' p \<noteq> None \<and>
         files w' p = map_option tf_data (temps w' (next_temp w)))) \<and>
   (pgn_to_gif lib pgn gif_path add_initial_position highlight_last_move orientation
      board_size coordinates style loop duration fps palettesize subrectangles w = (Inr r, w') \<longrightarrow>
    (case gif_path of
       None \<Rightarrow> r = Some (next_temp w) \<and>
         map_option tf_closed (temps w' (next_temp w)) = Some False \<and>
         files w' = files w \<and> dirs w' = dirs w
     | Some p \<Rightarrow> r = None \<and> files w' p \<noteq> None \<and>
         files w' p = map_option tf_data (temps w' (next_temp w))))"
proof -
  have game: "case gif_path of
       None \<Rightarrow> r = Some (next_temp w) \<and>
         map_option tf_closed (temps w' (next_temp w)) = Some False \<and>
         files w' = files w \<and> dirs w' = dirs w
     | Some p \<Rightarrow> r = None \<and> files w' p \<noteq> None \<and>
         files w' p = map_option tf_data (temps w' (next_temp w))"
    if run: "game_to_gif lib gm gif_path add_initial_position highlight_last_move orientation
      board_size coordinates style loop duration fps palettesize subrectangles w = (Inr r, w')"
    for gm
  proof -
    let ?ps = "pngs lib (svgs lib (game_to_boards_and_last_moves lib gm add_initial_position)
            highlight_last_move orientation board_size coordinates style)"
    let ?kw = "writer_kwargs loop duration fps palettesize subrectangles"
    from run obtain h w1 where
      enc: "pngs_to_gif lib ?ps loop duration fps palettesize subrectangles w = (Inr h, w1)"
      by (auto simp: game_to_gif_def Let_def split: prod.splits sum.splits)
    from pngs_to_gif_Inr[OF enc] obtain frames where
      h: "h = next_temp w" and
      t: "temps w1 = (temps w)(h \<mapsto> \<lparr>tf_data = gif_bytes lib ?kw frames,
                              tf_pos = length (gif_bytes lib ?kw frames), tf_closed = False\<rparr>)" and
      fd: "files w1 = files w" "dirs w1 = dirs w"
      by blast
    show ?thesis
    proof (cases gif_path)
      case None
      with run enc h t fd show ?thesis by (auto simp: game_to_gif_def Let_def)
    next
      case (Some p)
      with run enc obtain u where sv: "save_gif_temp_file lib h p w1 = (Inr u, w')" and r: "r = None"
        by (auto simp: game_to_gif_def Let_def split: prod.splits sum.splits)
      from t have "temps w1 h = Some \<lparr>tf_data = gif_bytes lib ?kw frames,
                              tf_pos = length (gif_bytes lib ?kw frames), tf_closed = False\<rparr>"
        by simp
      from save_gif_temp_file_Inr[OF sv this] Some r h show ?thesis by simp
    qed
  qed
  have pgn: "case gif_path of
       None \<Rightarrow> r = Some (next_temp w) \<and>
         map_option tf_closed (temps w' (next_temp w)) = Some False \<and>
         files w' = files w \<and> dirs w' = dirs w
     | Some p \<Rightarrow> r = None \<and> files w' p \<noteq> None \<and>
         files w' p = map_option tf_data (temps w' (next_temp w))"
    if "pgn_to_gif lib pgn gif_path add_initial_position highlight_last_move orientation
      board_size coordinates style loop duration fps palettesize subrectangles w = (Inr r, w')"
  proof -
    from that obtain gm where "game_to_gif lib gm gif_path add_initial_position highlight_last_move
      orientation board_size coordinates style loop duration fps palettesize subrectangles w = (Inr r, w')"
      by (auto simp: pgn_to_gif_def split: sum.splits)
    then show ?thesis by (rule game)
  qed
  show ?thesis
    by (rule conjI; rule impI) (erule game, erule pgn)
qed

theorem return_or_persist_witness:
  "map_option tf_closed
     (temps (snd (game_to_gif stub_lib (Some e4_e5) None True True WHITE 400 True None 0 None
                    (Some 1) 16 True w0)) 0) = Some False \<and>
   files (snd (game_to_gif stub_lib (Some e4_e5) None True True WHITE 400 True None 0 None
                 (Some 1) 16 True w0)) = files w0 \<and>
   files (snd (pgn_to_gif stub_lib ''garbage'' (Some [''out'', ''game.gif'']) True True WHITE 400
                 True None 0 (Some 1) (Some 1) 64 True w_pgn)) [''out'', ''game.gif''] \<noteq> None"
proof -
  note g = return_or_persist[THEN conjunct1, rule_format, OF e4_e5_run]
  note p = return_or_persist[THEN conjunct2, rule_format, OF garbage_run]
  have z: "next_temp w0 = 0" by (simp add: w0_def)
  note g' = g[unfolded option.case z]
  note p' = p[unfolded option.case]
  show ?thesis
    by (intro conjI)
      (rule g'[THEN conjunct2, THEN conjunct1] g'[THEN conjunct2, THEN conjunct2, THEN conjunct1]
         p'[THEN conjunct2, THEN conjunct1])+
qed

end
